theory Spec2Isabelle
  imports Complex_Main
begin

section \<open>Python values\<close>

text \<open>
  Decoded JSON, and the values the client and the experiment runner put into their
  dictionaries. A Python \<open>dict\<close> with string keys is an association list in insertion
  order, read through \<open>map_of\<close>. A Python \<open>float\<close> is carried as a rational: the
  program only passes floats along (temperature, \<open>top_p\<close>, the measured latency).
\<close>

datatype json =
    JNull
  | JBool bool
  | JInt int
  | JFloat rat
  | JStr string
  | JArr "json list"
  | JObj "(string \<times> json) list"

type_synonym pydict = "(string \<times> json) list"

text \<open>
  The exceptions the program distinguishes. \<open>HTTPStatusError\<close> carries what the handler
  reads from \<open>e.response\<close>: the status code, the result of \<open>e.response.json()\<close>
  (\<open>None\<close> when that call raises) and \<open>e.response.text\<close>. Every other constructor
  carries \<open>str(e)\<close>. \<open>OtherError\<close> stands for any exception class the program has no
  handler of its own for (\<open>AttributeError\<close>, \<open>TypeError\<close>, a JSON decoding error, ...).
\<close>

datatype py_exc =
    HTTPStatusError nat "json option" string
  | RequestError string
  | APIRequestError string
  | ValueError string
  | OtherError string

definition sq :: string where
  "sq = [CHR 0x27]"

definition dq :: string where
  "dq = [CHR 0x22]"

fun type_name :: "json \<Rightarrow> string" where
  "type_name JNull = ''NoneType''"
| "type_name (JBool b) = ''bool''"
| "type_name (JInt i) = ''int''"
| "type_name (JFloat r) = ''float''"
| "type_name (JStr s) = ''str''"
| "type_name (JArr xs) = ''list''"
| "type_name (JObj kvs) = ''dict''"

text \<open>\<open>d.get(k, dflt)\<close> on a dictionary known to be one.\<close>

definition dict_get :: "(string \<times> 'v) list \<Rightarrow> string \<Rightarrow> 'v \<Rightarrow> 'v" where
  "dict_get d k dflt = (case map_of d k of None \<Rightarrow> dflt | Some v \<Rightarrow> v)"

text \<open>\<open>d[k] = v\<close>: an existing key keeps its place, a new key goes last.\<close>

fun dict_set :: "('k \<times> 'v) list \<Rightarrow> 'k \<Rightarrow> 'v \<Rightarrow> ('k \<times> 'v) list" where
  "dict_set [] k v = [(k, v)]"
| "dict_set ((k', v') # d) k v =
     (if k' = k then (k, v) # d else (k', v') # dict_set d k v)"

text \<open>
  \<open>x.get(k, dflt)\<close> on a decoded JSON value: only a dictionary has the method; on
  anything else Python raises \<open>AttributeError\<close>.
\<close>

fun py_get :: "json \<Rightarrow> string \<Rightarrow> json \<Rightarrow> py_exc + json" where
  "py_get (JObj d) k dflt = Inr (dict_get d k dflt)"
| "py_get v k dflt =
     Inl (OtherError (sq @ type_name v @ sq @ '' object has no attribute '' @ sq @ ''get'' @ sq))"

text \<open>
  \<open>a + b\<close> on decoded JSON values: numbers add (\<open>bool\<close> counts as \<open>int\<close>; a float
  operand makes the sum a float, here without rounding), strings and lists concatenate,
  everything else is a \<open>TypeError\<close>.
\<close>

fun as_int :: "json \<Rightarrow> int option" where
  "as_int (JBool b) = Some (if b then 1 else 0)"
| "as_int (JInt i) = Some i"
| "as_int v = None"

fun as_number :: "json \<Rightarrow> rat option" where
  "as_number (JFloat r) = Some r"
| "as_number v = map_option of_int (as_int v)"

definition unsupported_operand :: "json \<Rightarrow> json \<Rightarrow> py_exc" where
  "unsupported_operand a b =
     OtherError (''unsupported operand type(s) for +: '' @ sq @ type_name a @ sq
                 @ '' and '' @ sq @ type_name b @ sq)"

definition can_only_concatenate :: "json \<Rightarrow> json \<Rightarrow> py_exc" where
  "can_only_concatenate a b =
     OtherError (''can only concatenate '' @ type_name a @ '' (not '' @ dq @ type_name b @ dq
                 @ '') to '' @ type_name a)"

fun py_add :: "json \<Rightarrow> json \<Rightarrow> py_exc + json" where
  "py_add (JStr a) (JStr b) = Inr (JStr (a @ b))"
| "py_add (JStr a) v = Inl (can_only_concatenate (JStr a) v)"
| "py_add (JArr a) (JArr b) = Inr (JArr (a @ b))"
| "py_add (JArr a) v = Inl (can_only_concatenate (JArr a) v)"
| "py_add a b =
     (case (as_int a, as_int b) of
        (Some i, Some j) \<Rightarrow> Inr (JInt (i + j))
      | _ \<Rightarrow>
        (case (as_number a, as_number b) of
           (Some x, Some y) \<Rightarrow> Inr (JFloat (x + y))
         | _ \<Rightarrow> Inl (unsupported_operand a b)))"



text \<open>\<open>len(x)\<close>.\<close>

fun py_len :: "json \<Rightarrow> py_exc + nat" where
  "py_len (JStr s) = Inr (length s)"
| "py_len (JArr xs) = Inr (length xs)"
| "py_len (JObj kvs) = Inr (length kvs)"
| "py_len v = Inl (OtherError (''object of type '' @ sq @ type_name v @ sq @ '' has no len()''))"

text \<open>\<open>d[k]\<close> on a dictionary: a missing key raises \<open>KeyError\<close>, whose text is the key quoted.\<close>

definition dict_index :: "(string \<times> 'v) list \<Rightarrow> string \<Rightarrow> py_exc + 'v" where
  "dict_index d k = (case map_of d k of None \<Rightarrow> Inl (OtherError (sq @ k @ sq)) | Some v \<Rightarrow> Inr v)"

text \<open>Sequencing of computations that may raise.\<close>

definition and_then :: "'e + 'a \<Rightarrow> ('a \<Rightarrow> 'e + 'b) \<Rightarrow> 'e + 'b" where
  "and_then m f = (case m of Inl e \<Rightarrow> Inl e | Inr v \<Rightarrow> f v)"

text \<open>Decimal rendering of a natural number, as an f-string renders a status code.\<close>

function str_nat :: "nat \<Rightarrow> string" where
  "str_nat n =
     (if n < 10 then [''0123456789'' ! n]
      else str_nat (n div 10) @ [''0123456789'' ! (n mod 10)])"
  by pat_completeness auto
termination
  by (relation "measure id") auto

declare str_nat.simps [simp del]

definition str_int :: "int \<Rightarrow> string" where
  "str_int i = (if i < 0 then ''-'' @ str_nat (nat (- i)) else str_nat (nat i))"

text \<open>
  \<open>f"{v}"\<close> for a decoded JSON value: a string is inserted as it is, \<open>None\<close>, a boolean
  and an integer by their \<open>str()\<close>. For a float, a list or a dictionary \<open>str()\<close> is
  \<open>repr()\<close>, which the model takes as the parameter \<open>py_repr\<close>.
\<close>

definition format_value :: "(json \<Rightarrow> string) \<Rightarrow> json \<Rightarrow> string" where
  "format_value py_repr v =
     (case v of
        JStr s \<Rightarrow> s
      | JNull \<Rightarrow> ''None''
      | JBool b \<Rightarrow> (if b then ''True'' else ''False'')
      | JInt i \<Rightarrow> str_int i
      | _ \<Rightarrow> py_repr v)"

text \<open>\<open>s.split(c)\<close> for a one-character separator, \<open>sep.join(parts)\<close>, \<open>s.rstrip(c)\<close>.\<close>

fun split_on :: "char \<Rightarrow> string \<Rightarrow> string list" where
  "split_on c [] = [[]]"
| "split_on c (x # xs) =
     (if x = c then [] # split_on c xs
      else (case split_on c xs of
              [] \<Rightarrow> [[x]]
            | p # ps \<Rightarrow> (x # p) # ps))"

fun str_join :: "string \<Rightarrow> string list \<Rightarrow> string" where
  "str_join sep [] = []"
| "str_join sep [p] = p"
| "str_join sep (p # q # ps) = p @ sep @ str_join sep (q # ps)"


section \<open>The client: construction\<close>


record client =
  self_api_key :: string
  self_base_url :: string
  self_timeout :: rat
  self_headers :: "(string \<times> string) list"



section \<open>The client: request translation\<close>

text \<open>Line 71: the model name sent on the wire.\<close>

definition model_name :: "string \<Rightarrow> string" where
  "model_name model =
     (if CHR ''/'' \<in> set model then last (split_on (CHR ''/'') model) else model)"

text \<open>
  Lines 73-85. A message is a \<open>Dict[str, str]\<close>. The loop appends to \<open>input_parts\<close>;
  the accumulator is the list built so far.
\<close>

type_synonym message = "(string \<times> string) list"

fun input_parts :: "message list \<Rightarrow> string list \<Rightarrow> string list" where
  "input_parts [] parts = parts"
| "input_parts (msg # msgs) parts =
     (let role = dict_get msg ''role'' ''user'';
          content = dict_get msg ''content'' ''''
      in if content \<noteq> [] then
           (if role = ''system'' then input_parts msgs (parts @ [''System: '' @ content])
            else if role = ''assistant'' then input_parts msgs (parts @ [''Assistant: '' @ content])
            else input_parts msgs (parts @ [content]))
         else input_parts msgs parts)"

definition input_text :: "message list \<Rightarrow> string" where
  "input_text messages = str_join [CHR 0x0A] (input_parts messages [])"

text \<open>Lines 87-98: the payload, a dictionary in insertion order.\<close>

definition payload_of ::
  "string \<Rightarrow> message list \<Rightarrow> rat \<Rightarrow> int option \<Rightarrow> rat option \<Rightarrow> bool \<Rightarrow> pydict" where
  "payload_of model messages temperature max_tokens top_p stream =
     (let payload = [(''model'', JStr (model_name model)),
                     (''input'', JStr (input_text messages)),
                     (''temperature'', JFloat temperature)];
          payload = (case max_tokens of
                       None \<Rightarrow> payload
                     | Some n \<Rightarrow> dict_set payload ''max_output_tokens'' (JInt n));
          payload = (case top_p of
                       None \<Rightarrow> payload
                     | Some p \<Rightarrow> dict_set payload ''top_p'' (JFloat p));
          payload = (if stream then dict_set payload ''stream'' (JBool True) else payload)
      in payload)"

text \<open>The defaults of the signature of \<open>chat_completion\<close> (lines 64-67).\<close>

definition default_temperature :: rat where
  "default_temperature = 7 / 10"

definition default_stream :: bool where
  "default_stream = False"

section \<open>The client: response normalisation\<close>

text \<open>
  Line 113. Python evaluates the default argument of \<open>get\<close> before the call, so the
  innermost lookup runs first.
\<close>

definition output_text :: "json \<Rightarrow> py_exc + json" where
  "output_text result =
     and_then (py_get result ''content'' (JStr [])) (\<lambda>c.
     and_then (py_get result ''text'' c) (\<lambda>t.
     py_get result ''output'' t))"

text \<open>
  Lines 115-121. \<open>latency_ms\<close> is \<open>round(elapsed_time * 1000, 2)\<close>, a float computed from
  the wall clock; it is an input here.
\<close>

definition metrics_of :: "json \<Rightarrow> rat \<Rightarrow> py_exc + pydict" where
  "metrics_of result latency_ms =
     and_then (py_get result ''usage'' (JObj [])) (\<lambda>usage.
     and_then (py_get usage ''input_tokens'' (JInt 0)) (\<lambda>i.
     and_then (py_get usage ''prompt_tokens'' i) (\<lambda>prompt_tokens.
     and_then (py_get usage ''output_tokens'' (JInt 0)) (\<lambda>out.
     and_then (py_get usage ''completion_tokens'' out) (\<lambda>completion_tokens.
     and_then (py_get usage ''prompt_tokens'' (JInt 0)) (\<lambda>p.
     and_then (py_get usage ''completion_tokens'' (JInt 0)) (\<lambda>c.
     and_then (py_add p c) (\<lambda>pc.
     and_then (py_get usage ''total_tokens'' pc) (\<lambda>total_tokens.
     Inr [(''latency_ms'', JFloat latency_ms),
          (''prompt_tokens'', prompt_tokens),
          (''completion_tokens'', completion_tokens),
          (''total_tokens'', total_tokens)])))))))))"

text \<open>
  Lines 123-138: the result envelope, a dictionary literal with fixed keys, as a record.
  \<open>r_choices\<close> is the list under \<open>"choices"\<close>, each element the dictionary under its
  \<open>"message"\<close> key.
\<close>

record chat_message =
  m_role :: string
  m_content :: json

record envelope =
  r_choices :: "chat_message list"
  r_usage :: pydict
  r_model :: string
  r_metrics :: pydict
  r_raw_response :: json

definition formatted_result :: "string \<Rightarrow> json \<Rightarrow> json \<Rightarrow> pydict \<Rightarrow> py_exc + envelope" where
  "formatted_result model result out metrics =
     and_then (dict_index metrics ''prompt_tokens'') (\<lambda>p.
     and_then (dict_index metrics ''completion_tokens'') (\<lambda>c.
     and_then (dict_index metrics ''total_tokens'') (\<lambda>t.
     Inr \<lparr> r_choices = [\<lparr> m_role = ''assistant'', m_content = out \<rparr>],
           r_usage = [(''prompt_tokens'', p), (''completion_tokens'', c), (''total_tokens'', t)],
           r_model = model,
           r_metrics = metrics,
           r_raw_response = result \<rparr>)))"

definition normalize :: "string \<Rightarrow> json \<Rightarrow> rat \<Rightarrow> py_exc + envelope" where
  "normalize model result latency_ms =
     and_then (output_text result) (\<lambda>out.
     and_then (metrics_of result latency_ms) (\<lambda>metrics.
     formatted_result model result out metrics))"

section \<open>The client: error handling\<close>

text \<open>Lines 147-156: the detail of an HTTP status failure.\<close>

definition http_error_detail :: "(json \<Rightarrow> string) \<Rightarrow> nat \<Rightarrow> json option \<Rightarrow> string \<Rightarrow> string" where
  "http_error_detail py_repr status_code body text =
     (let error_detail = ''HTTP '' @ str_nat status_code in
      case body of
        None \<Rightarrow> error_detail @ '': '' @ text
      | Some error_body \<Rightarrow>
          (case and_then (py_get error_body ''error'' (JObj [])) (\<lambda>err.
                py_get err ''message'' (JStr ''Unknown error'')) of
             Inl e \<Rightarrow> error_detail @ '': '' @ text
           | Inr msg \<Rightarrow> error_detail @ '': '' @ format_value py_repr msg))"

text \<open>
  Lines 147-164: the three handlers around the request, in the order Python tries them.
  \<open>except Exception\<close> takes every exception the first two do not.
\<close>

fun handle_exception :: "(json \<Rightarrow> string) \<Rightarrow> py_exc \<Rightarrow> py_exc" where
  "handle_exception py_repr (HTTPStatusError status_code body text) =
     APIRequestError (http_error_detail py_repr status_code body text)"
| "handle_exception py_repr (RequestError msg) = APIRequestError (''Request failed: '' @ msg)"
| "handle_exception py_repr (APIRequestError msg) = APIRequestError (''Unexpected error: '' @ msg)"
| "handle_exception py_repr (ValueError msg) = APIRequestError (''Unexpected error: '' @ msg)"
| "handle_exception py_repr (OtherError msg) = APIRequestError (''Unexpected error: '' @ msg)"

section \<open>The client: one call\<close>

text \<open>
  The network is outside the program. \<open>http_post k req\<close> is what the \<open>k\<close>-th request
  the process sends meets: \<open>Raises e\<close> when \<open>client.post\<close> or \<open>raise_for_status\<close> raises
  \<open>e\<close>, \<open>Responds j ms\<close> when a success status arrives, \<open>j\<close> being the result of
  \<open>response.json()\<close> (\<open>Inl e\<close> when that raises) and \<open>ms\<close> the latency the client
  computes from the clock. \<open>isoformat_now k\<close> is the \<open>k\<close>-th reading of
  \<open>datetime.now().isoformat()\<close>. The state counts the requests sent and the clock readings.
\<close>

datatype outcome = Raises py_exc | Responds "py_exc + json" rat

record http_request =
  req_url :: string
  req_headers :: "(string \<times> string) list"
  req_json :: pydict

record platform =
  http_post :: "nat \<Rightarrow> http_request \<Rightarrow> outcome"
  py_repr :: "json \<Rightarrow> string"
  isoformat_now :: "nat \<Rightarrow> string"

record world =
  sent :: nat
  ticks :: nat

text \<open>Lines 69-164: the body of \<open>chat_completion\<close>, one execution of it.\<close>

definition chat_completion_body ::
  "platform \<Rightarrow> client \<Rightarrow> string \<Rightarrow> message list \<Rightarrow> rat \<Rightarrow> int option \<Rightarrow> rat option \<Rightarrow> bool
     \<Rightarrow> world \<Rightarrow> (py_exc + envelope) \<times> world" where
  "chat_completion_body P self model messages temperature max_tokens top_p stream w =
     (let url = self_base_url self @ ''/responses/'';
          payload = payload_of model messages temperature max_tokens top_p stream;
          w' = w\<lparr> sent := sent w + 1 \<rparr>
      in case http_post P (sent w)
                \<lparr> req_url = url, req_headers = self_headers self, req_json = payload \<rparr> of
           Raises e \<Rightarrow> (Inl (handle_exception (py_repr P) e), w')
         | Responds j latency_ms \<Rightarrow>
             (case and_then j (\<lambda>result. normalize model result latency_ms) of
                Inl e \<Rightarrow> (Inl (handle_exception (py_repr P) e), w')
              | Inr formatted \<Rightarrow> (Inr formatted, w')))"

text \<open>
  Lines 54-59: the \<open>tenacity\<close> decorator. After an attempt that raised, the library first
  asks the \<open>retry\<close> predicate about the exception that reached it; when the predicate says
  no, the exception is raised at once. Otherwise the \<open>stop\<close> condition is asked; with
  \<open>reraise=True\<close> the last exception is raised when it holds. The wait between attempts
  does not change the model's state.
\<close>

fun retry_if_exception_type :: "py_exc \<Rightarrow> bool" where
  "retry_if_exception_type (HTTPStatusError status_code body text) = True"
| "retry_if_exception_type (RequestError msg) = True"
| "retry_if_exception_type e = False"

definition stop_after_attempt :: "nat \<Rightarrow> nat \<Rightarrow> bool" where
  "stop_after_attempt n attempt_number = (attempt_number \<ge> n)"

function retrying ::
  "nat \<Rightarrow> (world \<Rightarrow> (py_exc + 'a) \<times> world) \<Rightarrow> world \<Rightarrow> (py_exc + 'a) \<times> world" where
  "retrying attempt_number fn w =
     (case fn w of
        (Inr v, w') \<Rightarrow> (Inr v, w')
      | (Inl e, w') \<Rightarrow>
          if \<not> retry_if_exception_type e then (Inl e, w')
          else if stop_after_attempt 3 attempt_number then (Inl e, w')
          else retrying (attempt_number + 1) fn w')"
  by pat_completeness auto
termination
  by (relation "measure (\<lambda>(attempt_number, fn, w). 3 - attempt_number)")
     (auto simp: stop_after_attempt_def)

declare retrying.simps [simp del]

text \<open>\<open>chat_completion\<close> as callers see it: the body under the decorator.\<close>

definition chat_completion ::
  "platform \<Rightarrow> client \<Rightarrow> string \<Rightarrow> message list \<Rightarrow> rat \<Rightarrow> int option \<Rightarrow> rat option \<Rightarrow> bool
     \<Rightarrow> world \<Rightarrow> (py_exc + envelope) \<times> world" where
  "chat_completion P self model messages temperature max_tokens top_p stream w =
     retrying 1 (chat_completion_body P self model messages temperature max_tokens top_p stream) w"

section \<open>The client: connectivity probe\<close>


section \<open>The experiment runner\<close>

text \<open>
  \<open>src/experiments.py\<close>. A record of \<open>self.results\<close> is a dictionary. Console output is
  left out, except where computing the printed text can raise: \<open>len(response_text)\<close>
  inside the f-strings of lines 133 and 165.
\<close>

definition now :: "platform \<Rightarrow> world \<Rightarrow> string \<times> world" where
  "now P w = (isoformat_now P (ticks w), w\<lparr> ticks := ticks w + 1 \<rparr>)"

text \<open>\<open>result["choices"][0]["message"]["content"]\<close>.\<close>

definition response_text_of :: "envelope \<Rightarrow> py_exc + json" where
  "response_text_of result =
     (case r_choices result of
        [] \<Rightarrow> Inl (OtherError ''list index out of range'')
      | c # cs \<Rightarrow> Inr (m_content c))"

text \<open>
  Lines 108-137: the temperature loop of experiment 2. \<open>except APIRequestError\<close> prints
  and goes on; any other exception leaves the function.
\<close>

fun temperature_loop ::
  "platform \<Rightarrow> client \<Rightarrow> string \<Rightarrow> string \<Rightarrow> rat list \<Rightarrow> pydict list \<Rightarrow> world
     \<Rightarrow> (py_exc + pydict list) \<times> world" where
  "temperature_loop P self test_model base_prompt [] experiment_results w =
     (Inr experiment_results, w)"
| "temperature_loop P self test_model base_prompt (temp # temps) experiment_results w =
     (case chat_completion P self test_model [[(''role'', ''user''), (''content'', base_prompt)]]
             temp (Some 200) None default_stream w of
        (Inr result, w1) \<Rightarrow>
          (case response_text_of result of
             Inl e \<Rightarrow> (Inl e, w1)
           | Inr response_text \<Rightarrow>
               (let (timestamp, w2) = now P w1;
                    experiment_results' = experiment_results @
                      [[(''experiment'', JStr ''parameter_exploration''),
                        (''parameter'', JStr ''temperature''),
                        (''value'', JFloat temp),
                        (''model'', JStr test_model),
                        (''prompt'', JStr base_prompt),
                        (''response'', response_text),
                        (''metrics'', JObj (r_metrics result)),
                        (''timestamp'', JStr timestamp)]]
                in case py_len response_text of
                     Inl e \<Rightarrow> (Inl e, w2)
                   | Inr n \<Rightarrow>
                       temperature_loop P self test_model base_prompt temps experiment_results' w2))
      | (Inl (APIRequestError msg), w1) \<Rightarrow>
          temperature_loop P self test_model base_prompt temps experiment_results w1
      | (Inl e, w1) \<Rightarrow> (Inl e, w1))"

text \<open>Lines 141-169: the \<open>max_tokens\<close> loop of experiment 2.\<close>

fun max_tokens_loop ::
  "platform \<Rightarrow> client \<Rightarrow> string \<Rightarrow> int list \<Rightarrow> pydict list \<Rightarrow> world
     \<Rightarrow> (py_exc + pydict list) \<times> world" where
  "max_tokens_loop P self test_model [] experiment_results w = (Inr experiment_results, w)"
| "max_tokens_loop P self test_model (max_tokens # rest) experiment_results w =
     (case chat_completion P self test_model
             [[(''role'', ''user''), (''content'', ''Explain machine learning in detail.'')]]
             (7 / 10) (Some max_tokens) None default_stream w of
        (Inr result, w1) \<Rightarrow>
          (case response_text_of result of
             Inl e \<Rightarrow> (Inl e, w1)
           | Inr response_text \<Rightarrow>
               (let (timestamp, w2) = now P w1;
                    experiment_results' = experiment_results @
                      [[(''experiment'', JStr ''parameter_exploration''),
                        (''parameter'', JStr ''max_tokens''),
                        (''value'', JInt max_tokens),
                        (''model'', JStr test_model),
                        (''response'', response_text),
                        (''metrics'', JObj (r_metrics result)),
                        (''timestamp'', JStr timestamp)]]
                in case py_len response_text of
                     Inl e \<Rightarrow> (Inl e, w2)
                   | Inr n \<Rightarrow> max_tokens_loop P self test_model rest experiment_results' w2))
      | (Inl (APIRequestError msg), w1) \<Rightarrow>
          max_tokens_loop P self test_model rest experiment_results w1
      | (Inl e, w1) \<Rightarrow> (Inl e, w1))"

text \<open>
  Lines 95-172: experiment 2. The state is \<open>self.results\<close> and the world; the value is the
  list under \<open>"results"\<close> of the returned dictionary. An exception that leaves the function
  leaves \<open>self.results\<close> as it was.
\<close>

definition experiment_2_parameter_exploration ::
  "platform \<Rightarrow> string list \<Rightarrow> client \<Rightarrow> pydict list \<Rightarrow> world
     \<Rightarrow> (py_exc + pydict list) \<times> pydict list \<times> world" where
  "experiment_2_parameter_exploration P OPENAI_MODELS self results w =
     (let base_prompt = ''Write a creative short story about a robot learning to paint.'';
          test_model = (case OPENAI_MODELS of [] \<Rightarrow> ''openai/gpt-4o-mini'' | m # ms \<Rightarrow> m);
          temperatures = [0, 1 / 2, 1, 3 / 2]
      in case temperature_loop P self test_model base_prompt temperatures [] w of
           (Inl e, w1) \<Rightarrow> (Inl e, results, w1)
         | (Inr experiment_results, w1) \<Rightarrow>
             (case max_tokens_loop P self test_model [50, 150, 300] experiment_results w1 of
                (Inl e, w2) \<Rightarrow> (Inl e, results, w2)
              | (Inr experiment_results, w2) \<Rightarrow>
                  (Inr experiment_results, results @ experiment_results, w2)))"

text \<open>
  Lines 174-233: experiment 3, whose handler records the failure. The prompt catalogue is
  a list of (name, content) pairs.
\<close>

fun reasoning_models_loop ::
  "platform \<Rightarrow> client \<Rightarrow> string \<Rightarrow> string \<Rightarrow> string list \<Rightarrow> pydict list \<Rightarrow> world
     \<Rightarrow> (py_exc + pydict list) \<times> world" where
  "reasoning_models_loop P self prompt_name prompt_content [] experiment_results w =
     (Inr experiment_results, w)"
| "reasoning_models_loop P self prompt_name prompt_content (model # models) experiment_results w =
     (case chat_completion P self model [[(''role'', ''user''), (''content'', prompt_content)]]
             (3 / 10) (Some 512) None default_stream w of
        (Inr result, w1) \<Rightarrow>
          (case response_text_of result of
             Inl e \<Rightarrow> (Inl e, w1)
           | Inr response_text \<Rightarrow>
               (let (timestamp, w2) = now P w1
                in reasoning_models_loop P self prompt_name prompt_content models
                     (experiment_results @
                        [[(''experiment'', JStr ''reasoning_comparison''),
                          (''prompt_name'', JStr prompt_name),
                          (''model'', JStr model),
                          (''prompt'', JStr prompt_content),
                          (''response'', response_text),
                          (''metrics'', JObj (r_metrics result)),
                          (''timestamp'', JStr timestamp)]]) w2))
      | (Inl (APIRequestError msg), w1) \<Rightarrow>
          (let (timestamp, w2) = now P w1
           in reasoning_models_loop P self prompt_name prompt_content models
                (experiment_results @
                   [[(''experiment'', JStr ''reasoning_comparison''),
                     (''prompt_name'', JStr prompt_name),
                     (''model'', JStr model),
                     (''error'', JStr msg),
                     (''timestamp'', JStr timestamp)]]) w2)
      | (Inl e, w1) \<Rightarrow> (Inl e, w1))"

fun reasoning_prompts_loop ::
  "platform \<Rightarrow> client \<Rightarrow> string list \<Rightarrow> (string \<times> string) list \<Rightarrow> pydict list \<Rightarrow> world
     \<Rightarrow> (py_exc + pydict list) \<times> world" where
  "reasoning_prompts_loop P self test_models [] experiment_results w =
     (Inr experiment_results, w)"
| "reasoning_prompts_loop P self test_models ((prompt_name, prompt_content) # prompts)
       experiment_results w =
     (case reasoning_models_loop P self prompt_name prompt_content test_models
             experiment_results w of
        (Inl e, w1) \<Rightarrow> (Inl e, w1)
      | (Inr experiment_results', w1) \<Rightarrow>
          reasoning_prompts_loop P self test_models prompts experiment_results' w1)"

definition experiment_3_reasoning_comparison ::
  "platform \<Rightarrow> (string \<times> string) list \<Rightarrow> string list \<Rightarrow> string list \<Rightarrow> client
     \<Rightarrow> pydict list \<Rightarrow> world \<Rightarrow> (py_exc + pydict list) \<times> pydict list \<times> world" where
  "experiment_3_reasoning_comparison P reasoning_prompts OPENAI_MODELS ANTHROPIC_MODELS self
       results w =
     (let test_models =
            (if length OPENAI_MODELS \<ge> 2 then take 2 OPENAI_MODELS else OPENAI_MODELS)
            @ (if length ANTHROPIC_MODELS \<ge> 2 then take 2 ANTHROPIC_MODELS else ANTHROPIC_MODELS)
      in case reasoning_prompts_loop P self test_models reasoning_prompts [] w of
           (Inl e, w1) \<Rightarrow> (Inl e, results, w1)
         | (Inr experiment_results, w1) \<Rightarrow>
             (Inr experiment_results, results @ experiment_results, w1))"

section \<open>The summary\<close>

text \<open>
  Lines 429-440 of \<open>print_summary\<close>: the tally the table is printed from. The dictionary
  \<open>{"total": 0, "success": 0, "failed": 0}\<close> is a record. A name is whatever sits under
  \<open>"experiment"\<close>; the runner only ever stores strings there, and names are compared as
  HOL values.
\<close>

record counts =
  total :: int
  success :: int
  failed :: int

fun count_results :: "pydict list \<Rightarrow> (json \<times> counts) list \<Rightarrow> (json \<times> counts) list" where
  "count_results [] experiment_counts = experiment_counts"
| "count_results (result # rest) experiment_counts =
     (let exp_name = dict_get result ''experiment'' (JStr ''unknown'');
          c = (case map_of experiment_counts exp_name of
                 None \<Rightarrow> \<lparr> total = 0, success = 0, failed = 0 \<rparr>
               | Some c \<Rightarrow> c);
          c = c\<lparr> total := total c + 1 \<rparr>;
          c = (if map_of result ''error'' \<noteq> None
               then c\<lparr> failed := failed c + 1 \<rparr>
               else c\<lparr> success := success c + 1 \<rparr>)
      in count_results rest (dict_set experiment_counts exp_name c))"

definition print_summary :: "pydict list \<Rightarrow> (json \<times> counts) list" where
  "print_summary results = count_results results []"

section \<open>The specification's words\<close>

text \<open>
  Definitions written from the specification, to compare the code with.

  The translated prompt: a message has content when its \<open>content\<close> is present and not
  empty; its line carries the prefix of its role, or none for any other role and for no
  role; the prompt joins the lines of the messages that have content with newlines.
\<close>

definition has_content :: "message \<Rightarrow> bool" where
  "has_content msg = (case map_of msg ''content'' of None \<Rightarrow> False | Some c \<Rightarrow> c \<noteq> [])"

definition spec_line :: "message \<Rightarrow> string" where
  "spec_line msg =
     (let content = (case map_of msg ''content'' of None \<Rightarrow> [] | Some c \<Rightarrow> c) in
      case map_of msg ''role'' of
        None \<Rightarrow> content
      | Some role \<Rightarrow>
          if role = ''system'' then ''System: '' @ content
          else if role = ''assistant'' then ''Assistant: '' @ content
          else content)"

definition spec_prompt :: "message list \<Rightarrow> string" where
  "spec_prompt messages = str_join [CHR 0x0A] (map spec_line (filter has_content messages))"

text \<open>The substring after the last occurrence of a character; the whole string when
  the character does not occur.\<close>

definition after_last :: "char \<Rightarrow> string \<Rightarrow> string" where
  "after_last c s = rev (takeWhile (\<lambda>x. x \<noteq> c) (rev s))"

text \<open>
  The tally of an experiment name: all its records, those without an \<open>error\<close> field,
  those with one. A record with no \<open>experiment\<close> field counts under \<open>"unknown"\<close>.
\<close>

definition experiment_of :: "pydict \<Rightarrow> json" where
  "experiment_of r = (case map_of r ''experiment'' of None \<Rightarrow> JStr ''unknown'' | Some n \<Rightarrow> n)"

definition has_error :: "pydict \<Rightarrow> bool" where
  "has_error r = (''error'' \<in> fst ` set r)"

definition spec_tally :: "pydict list \<Rightarrow> json \<Rightarrow> counts" where
  "spec_tally results name =
     \<lparr> total = int (length (filter (\<lambda>r. experiment_of r = name) results)),
       success = int (length (filter (\<lambda>r. experiment_of r = name \<and> \<not> has_error r) results)),
       failed = int (length (filter (\<lambda>r. experiment_of r = name \<and> has_error r) results)) \<rparr>"

definition add_counts :: "counts \<Rightarrow> counts \<Rightarrow> counts" where
  "add_counts a b = \<lparr> total = total a + total b, success = success a + success b,
                      failed = failed a + failed b \<rparr>"


section \<open>Simulated platforms\<close>

text \<open>
  A platform that answers the \<open>k\<close>-th request with the \<open>k\<close>-th entry of a script, and
  refuses the connection once the script is used up. It renders a float, a list or a
  dictionary as its type name in angle brackets; none of the examples below renders one.
\<close>

definition scripted :: "outcome list \<Rightarrow> nat \<Rightarrow> http_request \<Rightarrow> outcome" where
  "scripted script k req =
     (if k < length script then script ! k else Raises (RequestError ''Connection refused''))"

definition simulated :: "outcome list \<Rightarrow> platform" where
  "simulated script =
     \<lparr> http_post = scripted script,
       py_repr = (\<lambda>v. ''<'' @ type_name v @ ''>''),
       isoformat_now = (\<lambda>k. ''2024-01-01T00:00:0'' @ str_nat k) \<rparr>"

definition test_client :: client where
  "test_client =
     \<lparr> self_api_key = ''test-key'', self_base_url = ''https://api.concentrate.ai/v1'',
       self_timeout = 30,
       self_headers = [(''Authorization'', ''Bearer test-key''),
                       (''Content-Type'', ''application/json'')] \<rparr>"

definition hello :: outcome where
  "hello = Responds (Inr (JObj [(''output'', JStr ''Hello'')])) 12"

definition timed_out :: outcome where
  "timed_out = Raises (RequestError ''timed out'')"


definition hello_envelope :: envelope where
  "hello_envelope =
     \<lparr> r_choices = [\<lparr> m_role = ''assistant'', m_content = JStr ''Hello'' \<rparr>],
       r_usage = [(''prompt_tokens'', JInt 0), (''completion_tokens'', JInt 0), (''total_tokens'', JInt 0)],
       r_model = ''openai/gpt-4o-mini'',
       r_metrics = [(''latency_ms'', JFloat 12), (''prompt_tokens'', JInt 0),
                    (''completion_tokens'', JInt 0), (''total_tokens'', JInt 0)],
       r_raw_response = JObj [(''output'', JStr ''Hello'')] \<rparr>"

definition start :: world where
  "start = \<lparr> sent = 0, ticks = 0 \<rparr>"

section \<open>Strings\<close>

lemma split_on_nonempty: "split_on c s \<noteq> []"
  by (induction s) (auto split: list.splits)

lemma split_on_no_sep: "c \<notin> set s \<Longrightarrow> split_on c s = [s]"
  by (induction s) auto

lemma split_on_sep: "c \<in> set s \<Longrightarrow> \<exists>p q qs. split_on c s = p # q # qs"
proof (induction s)
  case Nil
  then show ?case by simp
next
  case (Cons x xs)
  show ?case
  proof (cases "x = c")
    case True
    with split_on_nonempty [of c xs] show ?thesis
      by (cases "split_on c xs") auto
  next
    case False
    with Cons.prems have "c \<in> set xs" by auto
    from Cons.IH [OF this] False show ?thesis by auto
  qed
qed

lemma after_last_Cons_sep: "after_last c (c # xs) = after_last c xs"
proof (cases "c \<in> set xs")
  case True
  then have "takeWhile (\<lambda>x. x \<noteq> c) (rev xs @ [c]) = takeWhile (\<lambda>x. x \<noteq> c) (rev xs)"
    by (intro takeWhile_append1 [of c]) auto
  then show ?thesis by (simp add: after_last_def)
next
  case False
  then have a: "takeWhile (\<lambda>x. x \<noteq> c) (rev xs @ [c]) = rev xs @ takeWhile (\<lambda>x. x \<noteq> c) [c]"
    by (intro takeWhile_append2) auto
  from False have b: "takeWhile (\<lambda>x. x \<noteq> c) (rev xs) = rev xs"
    by (intro takeWhile_eq_all_conv [THEN iffD2]) auto
  show ?thesis unfolding after_last_def rev.simps a b by simp
qed

lemma after_last_Cons_other:
  "x \<noteq> c \<Longrightarrow> after_last c (x # xs) = (if c \<in> set xs then after_last c xs else x # xs)"
proof (cases "c \<in> set xs")
  case True
  then have "takeWhile (\<lambda>x. x \<noteq> c) (rev xs @ [x]) = takeWhile (\<lambda>x. x \<noteq> c) (rev xs)"
    by (intro takeWhile_append1 [of c]) auto
  with True show ?thesis by (simp add: after_last_def)
next
  case False
  assume "x \<noteq> c"
  with False have a: "takeWhile (\<lambda>x. x \<noteq> c) (rev xs @ [x]) = rev xs @ [x]"
    by (intro takeWhile_eq_all_conv [THEN iffD2]) auto
  from False show ?thesis unfolding after_last_def rev.simps a by simp
qed

lemma last_split_on: "last (split_on c s) = after_last c s"
proof (induction s)
  case Nil
  then show ?case by (simp add: after_last_def)
next
  case (Cons x xs)
  show ?case
  proof (cases "x = c")
    case True
    then show ?thesis
      using Cons.IH split_on_nonempty [of c xs] by (simp add: after_last_Cons_sep)
  next
    case False
    show ?thesis
    proof (cases "c \<in> set xs")
      case True
      from split_on_sep [OF this] obtain p q qs where "split_on c xs = p # q # qs" by blast
      with False True Cons.IH show ?thesis by (simp add: after_last_Cons_other)
    next
      case no: False
      with False show ?thesis by (simp add: split_on_no_sep after_last_Cons_other)
    qed
  qed
qed

lemma after_last_no_sep: "c \<notin> set s \<Longrightarrow> after_last c s = s"
proof -
  assume "c \<notin> set s"
  then have eq: "takeWhile (\<lambda>x. x \<noteq> c) (rev s) = rev s"
    by (intro takeWhile_eq_all_conv [THEN iffD2]) auto
  show ?thesis unfolding after_last_def eq by simp
qed

lemma model_name_after_last: "model_name model = after_last (CHR ''/'') model"
  by (simp add: model_name_def last_split_on after_last_no_sep)

lemma after_last_sep:
  assumes "c \<in> set s"
  shows "\<exists>pre. s = pre @ c # after_last c s" and "c \<notin> set (after_last c s)"
proof -
  have "rev s = takeWhile (\<lambda>x. x \<noteq> c) (rev s) @ dropWhile (\<lambda>x. x \<noteq> c) (rev s)"
    by simp
  moreover from assms have "dropWhile (\<lambda>x. x \<noteq> c) (rev s) \<noteq> []"
    by (simp add: dropWhile_eq_Nil_conv)
  then obtain y ys where d: "dropWhile (\<lambda>x. x \<noteq> c) (rev s) = y # ys"
    by (cases "dropWhile (\<lambda>x. x \<noteq> c) (rev s)") auto
  then have "y = c" using hd_dropWhile [of "\<lambda>x. x \<noteq> c" "rev s"] by auto
  ultimately have "rev s = rev (after_last c s) @ c # ys"
    using d by (simp add: after_last_def)
  then have "rev (rev s) = rev (rev (after_last c s) @ c # ys)" by simp
  then have "s = rev ys @ c # after_last c s" by simp
  then show "\<exists>pre. s = pre @ c # after_last c s" by blast
  show "c \<notin> set (after_last c s)"
    using set_takeWhileD [of c "\<lambda>x. x \<noteq> c" "rev s"] by (auto simp: after_last_def)
qed

lemma map_of_dict_set: "map_of (dict_set d k v) = (map_of d)(k \<mapsto> v)"
  by (induction d) (auto simp: fun_eq_iff)

section \<open>Request translation\<close>

lemma input_parts_acc:
  "input_parts msgs parts = parts @ map spec_line (filter has_content msgs)"
  by (induction msgs arbitrary: parts)
     (auto simp: Let_def dict_get_def spec_line_def has_content_def split: option.splits)

lemma str_join_nonempty: "ps \<noteq> [] \<Longrightarrow> \<forall>p\<in>set ps. p \<noteq> [] \<Longrightarrow> str_join sep ps \<noteq> []"
  by (induction sep ps rule: str_join.induct) auto

lemma spec_line_nonempty: "has_content m \<Longrightarrow> spec_line m \<noteq> []"
  by (auto simp: spec_line_def has_content_def Let_def split: option.splits)

text \<open>
  C4: the translated prompt is the newline-join, in input order, of the lines of the
  messages with non-empty content, each line prefixed by its role (\<open>System: \<close>,
  \<open>Assistant: \<close>, nothing for any other or no role); when no message has content the
  prompt is the empty string, and when some message has content it is not empty. The
  function is total: no input makes it raise.
\<close>

theorem C4_prompt:
  "input_text messages = spec_prompt messages
   \<and> ((\<forall>m\<in>set messages. \<not> has_content m) \<longrightarrow> input_text messages = [])
   \<and> ((\<exists>m\<in>set messages. has_content m) \<longrightarrow> input_text messages \<noteq> [])"
proof -
  have eq: "input_text messages = spec_prompt messages"
    by (simp add: input_text_def spec_prompt_def input_parts_acc)
  have empty: "(\<forall>m\<in>set messages. \<not> has_content m) \<longrightarrow> input_text messages = []"
    by (simp add: eq spec_prompt_def filter_False)
  have nonempty: "(\<exists>m\<in>set messages. has_content m) \<longrightarrow> input_text messages \<noteq> []"
  proof
    assume "\<exists>m\<in>set messages. has_content m"
    then have "filter has_content messages \<noteq> []"
      by (simp add: filter_empty_conv)
    then have "map spec_line (filter has_content messages) \<noteq> []" by simp
    moreover have "\<forall>p\<in>set (map spec_line (filter has_content messages)). p \<noteq> []"
      by (auto simp: spec_line_nonempty)
    ultimately show "input_text messages \<noteq> []"
      unfolding eq spec_prompt_def by (rule str_join_nonempty)
  qed
  from eq empty nonempty show ?thesis by blast
qed

theorem C4_prompt_witness:
  "input_text [[(''role'', ''system''), (''content'', ''Be brief'')],
               [(''role'', ''user''), (''content'', '''')],
               [(''role'', ''assistant''), (''content'', ''Hi'')],
               [(''role'', ''tool''), (''content'', ''42'')],
               [(''content'', ''Bye'')]]
     = ''System: Be brief'' @ [CHR 0x0A] @ ''Assistant: Hi'' @ [CHR 0x0A] @ ''42'' @ [CHR 0x0A] @ ''Bye''
   \<and> input_text [[(''role'', ''user''), (''content'', '''')], [(''role'', ''system'')]] = []"
proof -
  have a: "spec_prompt [[(''role'', ''system''), (''content'', ''Be brief'')],
               [(''role'', ''user''), (''content'', '''')],
               [(''role'', ''assistant''), (''content'', ''Hi'')],
               [(''role'', ''tool''), (''content'', ''42'')],
               [(''content'', ''Bye'')]]
     = ''System: Be brief'' @ [CHR 0x0A] @ ''Assistant: Hi'' @ [CHR 0x0A] @ ''42'' @ [CHR 0x0A] @ ''Bye''"
    by code_simp
  have b: "\<forall>m\<in>set [[(''role'', ''user''), (''content'', '''')], [(''role'', ''system'')]]. \<not> has_content m"
    by (simp add: has_content_def)
  note t1 = C4_prompt [of "[[(''role'', ''system''), (''content'', ''Be brief'')],
               [(''role'', ''user''), (''content'', '''')],
               [(''role'', ''assistant''), (''content'', ''Hi'')],
               [(''role'', ''tool''), (''content'', ''42'')],
               [(''content'', ''Bye'')]]", THEN conjunct1]
  note t2 = C4_prompt [of "[[(''role'', ''user''), (''content'', '''')], [(''role'', ''system'')]]",
               THEN conjunct2, THEN conjunct1, THEN mp, OF b]
  show ?thesis
    by (rule conjI) (simp only: t1 a, rule t2)
qed

text \<open>
  C5: the payload's \<open>model\<close> is the part of the identifier after its last \<open>/\<close> (the
  identifier itself when it has none); \<open>model\<close>, \<open>input\<close> and \<open>temperature\<close> are always
  present; \<open>max_output_tokens\<close> and \<open>top_p\<close> are present exactly when the argument is
  not \<open>None\<close>, \<open>stream\<close> exactly when the argument differs from its default \<open>False\<close>;
  no value of the payload is null.
\<close>

theorem C5_payload:
  "map_of (payload_of model messages temperature max_tokens top_p stream) ''model''
       = Some (JStr (after_last (CHR ''/'') model))
   \<and> map_of (payload_of model messages temperature max_tokens top_p stream) ''input''
       = Some (JStr (input_text messages))
   \<and> map_of (payload_of model messages temperature max_tokens top_p stream) ''temperature''
       = Some (JFloat temperature)
   \<and> map_of (payload_of model messages temperature max_tokens top_p stream) ''max_output_tokens''
       = map_option JInt max_tokens
   \<and> map_of (payload_of model messages temperature max_tokens top_p stream) ''top_p''
       = map_option JFloat top_p
   \<and> map_of (payload_of model messages temperature max_tokens top_p stream) ''stream''
       = (if stream = default_stream then None else Some (JBool True))
   \<and> JNull \<notin> snd ` set (payload_of model messages temperature max_tokens top_p stream)"
  by (cases max_tokens; cases top_p; cases stream)
     (simp_all add: payload_of_def map_of_dict_set model_name_after_last default_stream_def)

section \<open>One call\<close>

lemma handle_exception_api: "\<exists>msg. handle_exception f e = APIRequestError msg"
  by (cases e) simp_all

lemma not_retry_handled: "\<not> retry_if_exception_type (handle_exception f e)"
  by (cases e) simp_all

lemma body_cases:
  "(\<exists>e. chat_completion_body P self model messages t mt tp st w
        = (Inl (handle_exception (py_repr P) e), w\<lparr>sent := sent w + 1\<rparr>))
   \<or> (\<exists>r. chat_completion_body P self model messages t mt tp st w
        = (Inr r, w\<lparr>sent := sent w + 1\<rparr>))"
  by (auto simp: chat_completion_body_def Let_def split: outcome.splits sum.splits)

lemma chat_completion_once:
  "chat_completion P self model messages t mt tp st w
     = chat_completion_body P self model messages t mt tp st w"
  using body_cases [of P self model messages t mt tp st w]
  by (auto simp: chat_completion_def retrying.simps not_retry_handled)

lemma chat_completion_sent:
  "sent (snd (chat_completion P self model messages t mt tp st w)) = sent w + 1"
  using body_cases [of P self model messages t mt tp st w]
  by (auto simp: chat_completion_once)


lemma chat_completion_raises:
  "fst (chat_completion P self model messages t mt tp st w) = Inl e \<Longrightarrow> \<exists>msg. e = APIRequestError msg"
  using body_cases [of P self model messages t mt tp st w] handle_exception_api
  by (auto simp: chat_completion_once)

lemma metrics_of_shape:
  assumes "metrics_of result latency_ms = Inr m"
  shows "\<exists>p c t. m = [(''latency_ms'', JFloat latency_ms), (''prompt_tokens'', p),
                       (''completion_tokens'', c), (''total_tokens'', t)]"
  using assms by (auto simp: metrics_of_def and_then_def split: sum.splits)

lemma formatted_result_shape:
  "formatted_result model result out
      [(''latency_ms'', l), (''prompt_tokens'', p), (''completion_tokens'', c), (''total_tokens'', t)]
   = Inr \<lparr> r_choices = [\<lparr> m_role = ''assistant'', m_content = out \<rparr>],
           r_usage = [(''prompt_tokens'', p), (''completion_tokens'', c), (''total_tokens'', t)],
           r_model = model,
           r_metrics = [(''latency_ms'', l), (''prompt_tokens'', p), (''completion_tokens'', c), (''total_tokens'', t)],
           r_raw_response = result \<rparr>"
  by (simp add: formatted_result_def and_then_def dict_index_def)

lemma normalize_shape:
  assumes "normalize model result latency_ms = Inr env"
  shows "\<exists>out p c t. output_text result = Inr out
           \<and> metrics_of result latency_ms = Inr (r_metrics env)
           \<and> env = \<lparr> r_choices = [\<lparr> m_role = ''assistant'', m_content = out \<rparr>],
                     r_usage = [(''prompt_tokens'', p), (''completion_tokens'', c), (''total_tokens'', t)],
                     r_model = model,
                     r_metrics = [(''latency_ms'', JFloat latency_ms), (''prompt_tokens'', p),
                                  (''completion_tokens'', c), (''total_tokens'', t)],
                     r_raw_response = result \<rparr>"
proof -
  from assms obtain out m where o: "output_text result = Inr out"
    and m: "metrics_of result latency_ms = Inr m"
    and f: "formatted_result model result out m = Inr env"
    by (auto simp: normalize_def and_then_def split: sum.splits)
  from metrics_of_shape [OF m] obtain p c t where
    ms: "m = [(''latency_ms'', JFloat latency_ms), (''prompt_tokens'', p),
              (''completion_tokens'', c), (''total_tokens'', t)]" by blast
  from f have "env = \<lparr> r_choices = [\<lparr> m_role = ''assistant'', m_content = out \<rparr>],
                     r_usage = [(''prompt_tokens'', p), (''completion_tokens'', c), (''total_tokens'', t)],
                     r_model = model,
                     r_metrics = [(''latency_ms'', JFloat latency_ms), (''prompt_tokens'', p),
                                  (''completion_tokens'', c), (''total_tokens'', t)],
                     r_raw_response = result \<rparr>"
    unfolding ms formatted_result_shape by simp
  with o m ms show ?thesis by auto
qed

lemma chat_completion_success:
  assumes "chat_completion P self model messages t mt tp st w = (Inr env, w')"
  shows "\<exists>result latency_ms.
           http_post P (sent w)
             \<lparr> req_url = self_base_url self @ ''/responses/'', req_headers = self_headers self,
               req_json = payload_of model messages t mt tp st \<rparr>
             = Responds (Inr result) latency_ms
           \<and> normalize model result latency_ms = Inr env
           \<and> w' = w\<lparr> sent := sent w + 1 \<rparr>"
  using assms
  by (auto simp: chat_completion_once chat_completion_body_def Let_def and_then_def
           split: outcome.splits sum.splits)

lemma chat_completion_choices:
  assumes "chat_completion P self model messages t mt tp st w = (Inr env, w')"
  shows "\<exists>out. r_choices env = [\<lparr> m_role = ''assistant'', m_content = out \<rparr>]"
proof -
  from chat_completion_success [OF assms] obtain result latency_ms where
    "normalize model result latency_ms = Inr env" by blast
  from normalize_shape [OF this] show ?thesis by auto
qed

text \<open>
  C1 (the code departs from the claim): the claim promises up to three attempts, so that a
  transport failing twice and then succeeding yields a successful call. The body of
  \<open>chat_completion\<close> turns every exception into \<open>APIRequestError\<close> before the decorator
  sees it, and the decorator retries on \<open>HTTPStatusError\<close> and \<open>RequestError\<close> only:
  against that transport the call raises after one request, with the detail of the first
  failure; and against a transport that fails three times in three ways it raises after one
  request too, with the detail of the first failure, not of the last.
\<close>

theorem C1_single_attempt:
  "chat_completion (simulated [timed_out, timed_out, hello]) test_client ''openai/gpt-4o-mini''
     [[(''role'', ''user''), (''content'', ''Hi'')]] default_temperature None None default_stream start
   = (Inl (APIRequestError ''Request failed: timed out''), \<lparr> sent = 1, ticks = 0 \<rparr>)
   \<and> chat_completion
       (simulated [timed_out,
                   Raises (HTTPStatusError 503 None ''Service Unavailable''),
                   Raises (RequestError ''connection reset'')])
       test_client ''openai/gpt-4o-mini''
       [[(''role'', ''user''), (''content'', ''Hi'')]] default_temperature None None default_stream start
   = (Inl (APIRequestError ''Request failed: timed out''), \<lparr> sent = 1, ticks = 0 \<rparr>)"
  by code_simp

text \<open>
  C2 (the code departs from the claim): for \<open>usage = {input_tokens: 10, output_tokens: 5}\<close>
  the claim gives \<open>total_tokens = 15\<close>. Line 120 derives the total from \<open>prompt_tokens\<close>
  and \<open>completion_tokens\<close> only, without the alternate names lines 118 and 119 fall back
  to: the metrics are 10, 5 and a total of 0. With the names \<open>prompt_tokens\<close> and
  \<open>completion_tokens\<close> the same counts give the total 15.
\<close>

theorem C2_total_tokens:
  "metrics_of (JObj [(''output'', JStr ''Hello''),
                     (''usage'', JObj [(''input_tokens'', JInt 10), (''output_tokens'', JInt 5)])]) 12
   = Inr [(''latency_ms'', JFloat 12), (''prompt_tokens'', JInt 10),
          (''completion_tokens'', JInt 5), (''total_tokens'', JInt 0)]
   \<and> metrics_of (JObj [(''output'', JStr ''Hello''),
                     (''usage'', JObj [(''prompt_tokens'', JInt 10), (''completion_tokens'', JInt 5)])]) 12
   = Inr [(''latency_ms'', JFloat 12), (''prompt_tokens'', JInt 10),
          (''completion_tokens'', JInt 5), (''total_tokens'', JInt 15)]"
  by code_simp

text \<open>
  C9: when a call succeeds, the request that was answered carried the payload of the
  arguments, whose \<open>model\<close> is the stripped name, while the envelope's \<open>model\<close> is the
  identifier as the caller gave it; and the envelope's \<open>usage\<close> has exactly the three
  token fields, each equal to the field of the same name of its \<open>metrics\<close>.
\<close>

theorem C9_envelope:
  assumes "chat_completion P self model messages t mt tp st w = (Inr env, w')"
  shows "r_model env = model
       \<and> (\<exists>result latency_ms.
            http_post P (sent w)
              \<lparr> req_url = self_base_url self @ ''/responses/'', req_headers = self_headers self,
                req_json = payload_of model messages t mt tp st \<rparr>
              = Responds (Inr result) latency_ms)
       \<and> map_of (payload_of model messages t mt tp st) ''model'' = Some (JStr (model_name model))
       \<and> map (\<lambda>k. map_of (r_usage env) k) [''prompt_tokens'', ''completion_tokens'', ''total_tokens'']
          = map (\<lambda>k. map_of (r_metrics env) k) [''prompt_tokens'', ''completion_tokens'', ''total_tokens'']
       \<and> map fst (r_usage env) = [''prompt_tokens'', ''completion_tokens'', ''total_tokens'']"
proof -
  from chat_completion_success [OF assms] obtain result latency_ms where
    post: "http_post P (sent w)
             \<lparr> req_url = self_base_url self @ ''/responses/'', req_headers = self_headers self,
               req_json = payload_of model messages t mt tp st \<rparr>
             = Responds (Inr result) latency_ms"
    and n: "normalize model result latency_ms = Inr env" by blast
  from normalize_shape [OF n] obtain out p c tt where
    env: "env = \<lparr> r_choices = [\<lparr> m_role = ''assistant'', m_content = out \<rparr>],
                     r_usage = [(''prompt_tokens'', p), (''completion_tokens'', c), (''total_tokens'', tt)],
                     r_model = model,
                     r_metrics = [(''latency_ms'', JFloat latency_ms), (''prompt_tokens'', p),
                                  (''completion_tokens'', c), (''total_tokens'', tt)],
                     r_raw_response = result \<rparr>" by blast
  have pm: "map_of (payload_of model messages t mt tp st) ''model'' = Some (JStr (model_name model))"
    by (cases mt; cases tp; cases st) (simp_all add: payload_of_def)
  have "r_model env = model" by (simp add: env)
  moreover have "map (\<lambda>k. map_of (r_usage env) k) [''prompt_tokens'', ''completion_tokens'', ''total_tokens'']
          = map (\<lambda>k. map_of (r_metrics env) k) [''prompt_tokens'', ''completion_tokens'', ''total_tokens'']"
    by (simp add: env)
  moreover have "map fst (r_usage env) = [''prompt_tokens'', ''completion_tokens'', ''total_tokens'']"
    by (simp add: env)
  ultimately show ?thesis using post pm by blast
qed

text \<open>C9, at a call that a simulated platform answers.\<close>

theorem C9_envelope_witness:
  "chat_completion (simulated [hello]) test_client ''openai/gpt-4o-mini''
       [[(''role'', ''user''), (''content'', ''Hi'')]] default_temperature None None default_stream start
     = (Inr hello_envelope, \<lparr> sent = 1, ticks = 0 \<rparr>)
   \<and> r_model hello_envelope = ''openai/gpt-4o-mini''
   \<and> map_of (payload_of ''openai/gpt-4o-mini'' [[(''role'', ''user''), (''content'', ''Hi'')]]
                default_temperature None None default_stream) ''model''
       = Some (JStr ''gpt-4o-mini'')
   \<and> map (\<lambda>k. map_of (r_usage hello_envelope) k) [''prompt_tokens'', ''completion_tokens'', ''total_tokens'']
       = map (\<lambda>k. map_of (r_metrics hello_envelope) k) [''prompt_tokens'', ''completion_tokens'', ''total_tokens'']"
proof -
  have call: "chat_completion (simulated [hello]) test_client ''openai/gpt-4o-mini''
       [[(''role'', ''user''), (''content'', ''Hi'')]] default_temperature None None default_stream start
     = (Inr hello_envelope, \<lparr> sent = 1, ticks = 0 \<rparr>)"
    by code_simp
  have name: "model_name ''openai/gpt-4o-mini'' = ''gpt-4o-mini''"
    by code_simp
  from C9_envelope [OF call] name call show ?thesis by simp
qed

section \<open>The detail of an HTTP status failure\<close>

lemma detail_no_error:
  "map_of d ''error'' = None \<Longrightarrow>
     http_error_detail f status_code (Some (JObj d)) text
       = ''HTTP '' @ str_nat status_code @ '': Unknown error''"
  by (simp add: http_error_detail_def and_then_def dict_get_def format_value_def)

lemma detail_no_message:
  "map_of d ''error'' = Some (JObj e) \<Longrightarrow> map_of e ''message'' = None \<Longrightarrow>
     http_error_detail f status_code (Some (JObj d)) text
       = ''HTTP '' @ str_nat status_code @ '': Unknown error''"
  by (simp add: http_error_detail_def and_then_def dict_get_def format_value_def)

lemma detail_message:
  "map_of d ''error'' = Some (JObj e) \<Longrightarrow> map_of e ''message'' = Some m \<Longrightarrow>
     http_error_detail f status_code (Some (JObj d)) text
       = ''HTTP '' @ str_nat status_code @ '': '' @ format_value f m"
  by (simp add: http_error_detail_def and_then_def dict_get_def)

lemma detail_not_json:
  "http_error_detail f status_code None text = ''HTTP '' @ str_nat status_code @ '': '' @ text"
  by (simp add: http_error_detail_def)

lemma detail_not_object:
  "\<forall>d. v \<noteq> JObj d \<Longrightarrow>
     http_error_detail f status_code (Some v) text = ''HTTP '' @ str_nat status_code @ '': '' @ text"
  by (cases v) (simp_all add: http_error_detail_def and_then_def)

lemma detail_error_not_object:
  "map_of d ''error'' = Some v \<Longrightarrow> \<forall>e. v \<noteq> JObj e \<Longrightarrow>
     http_error_detail f status_code (Some (JObj d)) text
       = ''HTTP '' @ str_nat status_code @ '': '' @ text"
  by (cases v) (simp_all add: http_error_detail_def and_then_def dict_get_def)

lemma chat_completion_http_status:
  "http_post P (sent w)
      \<lparr> req_url = self_base_url self @ ''/responses/'', req_headers = self_headers self,
        req_json = payload_of model messages t mt tp st \<rparr>
     = Raises (HTTPStatusError status_code body text) \<Longrightarrow>
   fst (chat_completion P self model messages t mt tp st w)
     = Inl (APIRequestError (http_error_detail (py_repr P) status_code body text))"
  by (simp add: chat_completion_once chat_completion_body_def Let_def)

text \<open>
  C10 (amended): for an HTTP status failure the detail is \<open>HTTP <code>: Unknown error\<close>
  when the body parses as a JSON object whose \<open>error\<close> is absent or is an object without
  \<open>message\<close>; it is \<open>HTTP <code>: \<close> followed by the raw response text when the body does
  not parse, when it parses as something other than an object, or when its \<open>error\<close> is
  not an object; it is \<open>HTTP <code>: \<close> followed by the message when \<open>error\<close> is an
  object with a \<open>message\<close>. This detail is what \<open>chat_completion\<close> raises when the request
  meets an HTTP status failure.
\<close>

theorem C10_detail:
  "(\<forall>d. body = Some (JObj d)
          \<and> (map_of d ''error'' = None
               \<or> (\<exists>e. map_of d ''error'' = Some (JObj e) \<and> map_of e ''message'' = None)) \<longrightarrow>
      http_error_detail f status_code body text = ''HTTP '' @ str_nat status_code @ '': Unknown error'')
   \<and> (body = None
        \<or> (\<exists>v. body = Some v \<and> (\<forall>d. v \<noteq> JObj d))
        \<or> (\<exists>d v. body = Some (JObj d) \<and> map_of d ''error'' = Some v \<and> (\<forall>e. v \<noteq> JObj e)) \<longrightarrow>
      http_error_detail f status_code body text = ''HTTP '' @ str_nat status_code @ '': '' @ text)
   \<and> (\<forall>d e m. body = Some (JObj d) \<and> map_of d ''error'' = Some (JObj e)
          \<and> map_of e ''message'' = Some m \<longrightarrow>
      http_error_detail f status_code body text = ''HTTP '' @ str_nat status_code @ '': '' @ format_value f m)
   \<and> (http_post P (sent w)
          \<lparr> req_url = self_base_url self @ ''/responses/'', req_headers = self_headers self,
            req_json = payload_of model messages t mt tp st \<rparr>
        = Raises (HTTPStatusError status_code body text) \<longrightarrow>
      fst (chat_completion P self model messages t mt tp st w)
        = Inl (APIRequestError (http_error_detail (py_repr P) status_code body text)))"
proof (intro conjI allI impI)
  fix d
  assume "body = Some (JObj d)
          \<and> (map_of d ''error'' = None
               \<or> (\<exists>e. map_of d ''error'' = Some (JObj e) \<and> map_of e ''message'' = None))"
  then show "http_error_detail f status_code body text = ''HTTP '' @ str_nat status_code @ '': Unknown error''"
    using detail_no_error detail_no_message by blast
next
  assume "body = None
        \<or> (\<exists>v. body = Some v \<and> (\<forall>d. v \<noteq> JObj d))
        \<or> (\<exists>d v. body = Some (JObj d) \<and> map_of d ''error'' = Some v \<and> (\<forall>e. v \<noteq> JObj e))"
  then show "http_error_detail f status_code body text = ''HTTP '' @ str_nat status_code @ '': '' @ text"
    using detail_not_json detail_not_object detail_error_not_object by blast
next
  fix d e m
  assume "body = Some (JObj d) \<and> map_of d ''error'' = Some (JObj e) \<and> map_of e ''message'' = Some m"
  then show "http_error_detail f status_code body text = ''HTTP '' @ str_nat status_code @ '': '' @ format_value f m"
    using detail_message by blast
next
  assume "http_post P (sent w)
          \<lparr> req_url = self_base_url self @ ''/responses/'', req_headers = self_headers self,
            req_json = payload_of model messages t mt tp st \<rparr>
        = Raises (HTTPStatusError status_code body text)"
  then show "fst (chat_completion P self model messages t mt tp st w)
        = Inl (APIRequestError (http_error_detail (py_repr P) status_code body text))"
    by (rule chat_completion_http_status)
qed

text \<open>C10, at concrete failures: a 404 without message, a 502 with an HTML body, a 429 with a message.\<close>

theorem C10_detail_witness:
  \<open>http_error_detail (py_repr (simulated [])) 404 (Some (JObj [(''error'', JObj [(''code'', JInt 7)])]))
      ''{"error": {"code": 7}}'' = ''HTTP 404: Unknown error''
   \<and> http_error_detail (py_repr (simulated [])) 502 None ''<html>Bad Gateway</html>''
      = ''HTTP 502: <html>Bad Gateway</html>''
   \<and> http_error_detail (py_repr (simulated [])) 429
        (Some (JObj [(''error'', JObj [(''message'', JStr ''Rate limit exceeded'')])]))
        ''{"error": {"message": "Rate limit exceeded"}}'' = ''HTTP 429: Rate limit exceeded''
   \<and> fst (chat_completion
            (simulated [Raises (HTTPStatusError 404 (Some (JObj [(''error'', JObj [(''code'', JInt 7)])]))
                                  ''{"error": {"code": 7}}'')])
            test_client ''openai/gpt-4o-mini'' [[(''role'', ''user''), (''content'', ''Hi'')]]
            default_temperature None None default_stream start)
      = Inl (APIRequestError ''HTTP 404: Unknown error'')\<close>
proof -
  have n404: "str_nat 404 = ''404''" and n502: "str_nat 502 = ''502''" and n429: "str_nat 429 = ''429''"
    by code_simp+
  have a: \<open>http_error_detail (py_repr (simulated [])) 404 (Some (JObj [(''error'', JObj [(''code'', JInt 7)])]))
      ''{"error": {"code": 7}}'' = ''HTTP 404: Unknown error''\<close>
    using C10_detail [where body = "Some (JObj [(''error'', JObj [(''code'', JInt 7)])])"
        and status_code = 404, THEN conjunct1, rule_format, of "[(''error'', JObj [(''code'', JInt 7)])]"]
    by (simp add: n404)
  have b: "http_error_detail (py_repr (simulated [])) 502 None ''<html>Bad Gateway</html>''
      = ''HTTP 502: <html>Bad Gateway</html>''"
    using C10_detail [where body = None and status_code = 502, THEN conjunct2, THEN conjunct1]
    by (simp add: n502)
  have c: \<open>http_error_detail (py_repr (simulated [])) 429
        (Some (JObj [(''error'', JObj [(''message'', JStr ''Rate limit exceeded'')])]))
        ''{"error": {"message": "Rate limit exceeded"}}'' = ''HTTP 429: Rate limit exceeded''\<close>
    using C10_detail [where body = "Some (JObj [(''error'', JObj [(''message'', JStr ''Rate limit exceeded'')])])"
        and status_code = 429, THEN conjunct2, THEN conjunct2, THEN conjunct1, rule_format,
        of "[(''error'', JObj [(''message'', JStr ''Rate limit exceeded'')])]"
           "[(''message'', JStr ''Rate limit exceeded'')]" "JStr ''Rate limit exceeded''"]
    by (simp add: n429 format_value_def)
  have post: \<open>http_post
       (simulated [Raises (HTTPStatusError 404 (Some (JObj [(''error'', JObj [(''code'', JInt 7)])]))
                                  ''{"error": {"code": 7}}'')])
       (sent start)
       \<lparr> req_url = self_base_url test_client @ ''/responses/'', req_headers = self_headers test_client,
         req_json = payload_of ''openai/gpt-4o-mini'' [[(''role'', ''user''), (''content'', ''Hi'')]]
                      default_temperature None None default_stream \<rparr>
     = Raises (HTTPStatusError 404 (Some (JObj [(''error'', JObj [(''code'', JInt 7)])]))
                                  ''{"error": {"code": 7}}'')\<close>
    by (simp add: simulated_def scripted_def start_def)
  have d: \<open>fst (chat_completion
            (simulated [Raises (HTTPStatusError 404 (Some (JObj [(''error'', JObj [(''code'', JInt 7)])]))
                                  ''{"error": {"code": 7}}'')])
            test_client ''openai/gpt-4o-mini'' [[(''role'', ''user''), (''content'', ''Hi'')]]
            default_temperature None None default_stream start)
      = Inl (APIRequestError ''HTTP 404: Unknown error'')\<close>
    using C10_detail [THEN conjunct2, THEN conjunct2, THEN conjunct2, THEN mp, OF post] a
    by (simp add: simulated_def)
  from a b c d show ?thesis by (intro conjI)
qed

text \<open>
  C10 as stated fails: the body \<open>{"error": "Unauthorized"}\<close> parses as JSON and has no
  nested \<open>error.message\<close>, yet the detail is the raw text, not \<open>Unknown error\<close>.
\<close>

theorem C10_counterexample:
  \<open>http_error_detail (py_repr (simulated [])) 401 (Some (JObj [(''error'', JStr ''Unauthorized'')]))
      ''{"error": "Unauthorized"}''
     = ''HTTP 401: {"error": "Unauthorized"}''
   \<and> ''HTTP 401: {"error": "Unauthorized"}'' \<noteq> ''HTTP 401: Unknown error''\<close>
  by code_simp

section \<open>Construction\<close>



section \<open>The probe\<close>





section \<open>The runner\<close>

text \<open>Experiment 3 leaves one record for every call it attempts, whatever the calls meet.\<close>

lemma reasoning_models_loop_records:
  "\<exists>rs w'. reasoning_models_loop P self prompt_name prompt_content models acc w = (Inr rs, w')
      \<and> length rs = length acc + length models
      \<and> sent w' = sent w + length models"
proof (induction models arbitrary: acc w)
  case Nil
  then show ?case by simp
next
  case (Cons model models)
  obtain r w1 where call:
    "chat_completion P self model [[(''role'', ''user''), (''content'', prompt_content)]]
       (3 / 10) (Some 512) None default_stream w = (r, w1)"
    by (cases "chat_completion P self model [[(''role'', ''user''), (''content'', prompt_content)]]
       (3 / 10) (Some 512) None default_stream w")
  have w1: "sent w1 = sent w + 1"
    using chat_completion_sent [of P self model "[[(''role'', ''user''), (''content'', prompt_content)]]"
            "3 / 10" "Some 512" None default_stream w] call by simp
  show ?case
  proof (cases r)
    case (Inl e)
    with call chat_completion_raises [of P self model "[[(''role'', ''user''), (''content'', prompt_content)]]"
            "3 / 10" "Some 512" None default_stream w e]
    obtain msg where e: "e = APIRequestError msg" by auto
    obtain ts w2 where n: "now P w1 = (ts, w2)" by (cases "now P w1")
    then have w2: "sent w2 = sent w1" by (auto simp: now_def)
    from Cons.IH [of "acc @ [[(''experiment'', JStr ''reasoning_comparison''),
                     (''prompt_name'', JStr prompt_name),
                     (''model'', JStr model),
                     (''error'', JStr msg),
                     (''timestamp'', JStr ts)]]" w2]
    show ?thesis using call Inl e n w1 w2 by auto
  next
    case (Inr result)
    with call chat_completion_choices obtain out where
      "r_choices result = [\<lparr> m_role = ''assistant'', m_content = out \<rparr>]" by blast
    then have rt: "response_text_of result = Inr out" by (simp add: response_text_of_def)
    obtain ts w2 where n: "now P w1 = (ts, w2)" by (cases "now P w1")
    then have w2: "sent w2 = sent w1" by (auto simp: now_def)
    from Cons.IH [of "acc @ [[(''experiment'', JStr ''reasoning_comparison''),
                          (''prompt_name'', JStr prompt_name),
                          (''model'', JStr model),
                          (''prompt'', JStr prompt_content),
                          (''response'', out),
                          (''metrics'', JObj (r_metrics result)),
                          (''timestamp'', JStr ts)]]" w2]
    show ?thesis using call Inr rt n w1 w2 by auto
  qed
qed

lemma reasoning_prompts_loop_records:
  "\<exists>rs w'. reasoning_prompts_loop P self test_models prompts acc w = (Inr rs, w')
      \<and> length rs = length acc + length prompts * length test_models
      \<and> sent w' = sent w + length prompts * length test_models"
proof (induction prompts arbitrary: acc w)
  case Nil
  then show ?case by simp
next
  case (Cons p prompts)
  obtain prompt_name prompt_content where p: "p = (prompt_name, prompt_content)" by (cases p)
  from reasoning_models_loop_records [of P self prompt_name prompt_content test_models acc w]
  obtain rs1 w1 where
    l: "reasoning_models_loop P self prompt_name prompt_content test_models acc w = (Inr rs1, w1)"
    and n: "length rs1 = length acc + length test_models"
    and s: "sent w1 = sent w + length test_models" by blast
  from Cons.IH [of rs1 w1] show ?case using p l n s by auto
qed

lemma experiment_3_records:
  "\<exists>rs w'. experiment_3_reasoning_comparison P reasoning_prompts OPENAI_MODELS ANTHROPIC_MODELS
              self results w = (Inr rs, results @ rs, w')
      \<and> length rs = length reasoning_prompts * (min 2 (length OPENAI_MODELS) + min 2 (length ANTHROPIC_MODELS))
      \<and> sent w' = sent w + length rs"
proof -
  define test_models where "test_models =
            (if length OPENAI_MODELS \<ge> 2 then take 2 OPENAI_MODELS else OPENAI_MODELS)
            @ (if length ANTHROPIC_MODELS \<ge> 2 then take 2 ANTHROPIC_MODELS else ANTHROPIC_MODELS)"
  have len: "length test_models = min 2 (length OPENAI_MODELS) + min 2 (length ANTHROPIC_MODELS)"
    by (simp add: test_models_def)
  from reasoning_prompts_loop_records [of P self test_models reasoning_prompts "[]" w]
  obtain rs w' where
    l: "reasoning_prompts_loop P self test_models reasoning_prompts [] w = (Inr rs, w')"
    and n: "length rs = length reasoning_prompts * length test_models"
    and s: "sent w' = sent w + length reasoning_prompts * length test_models" by auto
  have "experiment_3_reasoning_comparison P reasoning_prompts OPENAI_MODELS ANTHROPIC_MODELS
              self results w = (Inr rs, results @ rs, w')"
    using l unfolding experiment_3_reasoning_comparison_def test_models_def [symmetric] Let_def
    by simp
  with n s len show ?thesis by auto
qed

text \<open>
  Experiment 2: a call that raises \<open>APIRequestError\<close> leaves the list of records as it
  was, so a run sends its seven requests and returns at most seven records, none of which
  has an \<open>error\<close> field.
\<close>

lemma temperature_loop_failure:
  "chat_completion P self test_model [[(''role'', ''user''), (''content'', base_prompt)]]
       temp (Some 200) None default_stream w = (Inl (APIRequestError msg), w1) \<Longrightarrow>
   temperature_loop P self test_model base_prompt (temp # temps) experiment_results w
     = temperature_loop P self test_model base_prompt temps experiment_results w1"
  by simp

lemma max_tokens_loop_failure:
  "chat_completion P self test_model
       [[(''role'', ''user''), (''content'', ''Explain machine learning in detail.'')]]
       (7 / 10) (Some max_tokens) None default_stream w = (Inl (APIRequestError msg), w1) \<Longrightarrow>
   max_tokens_loop P self test_model (max_tokens # rest) experiment_results w
     = max_tokens_loop P self test_model rest experiment_results w1"
  by simp

lemma temperature_loop_inv:
  "temperature_loop P self test_model base_prompt temps acc w = (Inr rs, w') \<Longrightarrow>
     sent w' = sent w + length temps
     \<and> length rs \<le> length acc + length temps
     \<and> (\<forall>r\<in>set rs. r \<in> set acc \<or> \<not> has_error r)"
proof (induction temps arbitrary: acc w)
  case Nil
  then show ?case by auto
next
  case (Cons temp temps)
  obtain r w1 where call:
    "chat_completion P self test_model [[(''role'', ''user''), (''content'', base_prompt)]]
       temp (Some 200) None default_stream w = (r, w1)"
    by (cases "chat_completion P self test_model [[(''role'', ''user''), (''content'', base_prompt)]]
       temp (Some 200) None default_stream w")
  have w1: "sent w1 = sent w + 1"
    using chat_completion_sent [of P self test_model "[[(''role'', ''user''), (''content'', base_prompt)]]"
            temp "Some 200" None default_stream w] call by simp
  show ?case
  proof (cases r)
    case (Inl e)
    with call chat_completion_raises [of P self test_model "[[(''role'', ''user''), (''content'', base_prompt)]]"
            temp "Some 200" None default_stream w e]
    obtain msg where e: "e = APIRequestError msg" by auto
    with Cons.prems call Inl have
      "temperature_loop P self test_model base_prompt temps acc w1 = (Inr rs, w')" by simp
    from Cons.IH [OF this] w1 show ?thesis by auto
  next
    case (Inr result)
    obtain ts w2 where n: "now P w1 = (ts, w2)" by (cases "now P w1")
    then have w2: "sent w2 = sent w1" by (auto simp: now_def)
    from Cons.prems call Inr n obtain response_text where
      rt: "response_text_of result = Inr response_text"
      and tail: "temperature_loop P self test_model base_prompt temps
                   (acc @ [[(''experiment'', JStr ''parameter_exploration''),
                        (''parameter'', JStr ''temperature''),
                        (''value'', JFloat temp),
                        (''model'', JStr test_model),
                        (''prompt'', JStr base_prompt),
                        (''response'', response_text),
                        (''metrics'', JObj (r_metrics result)),
                        (''timestamp'', JStr ts)]]) w2 = (Inr rs, w')"
      by (auto split: sum.splits)
    from Cons.IH [OF tail] w1 w2 show ?thesis
      by (auto simp: has_error_def)
  qed
qed


lemma max_tokens_loop_inv:
  "max_tokens_loop P self test_model rest acc w = (Inr rs, w') \<Longrightarrow>
     sent w' = sent w + length rest
     \<and> length rs \<le> length acc + length rest
     \<and> (\<forall>r\<in>set rs. r \<in> set acc \<or> \<not> has_error r)"
proof (induction rest arbitrary: acc w)
  case Nil
  then show ?case by auto
next
  case (Cons max_tokens rest)
  obtain r w1 where call:
    "chat_completion P self test_model [[(''role'', ''user''), (''content'', ''Explain machine learning in detail.'')]]
       (7 / 10) (Some max_tokens) None default_stream w = (r, w1)"
    by (cases "chat_completion P self test_model [[(''role'', ''user''), (''content'', ''Explain machine learning in detail.'')]]
       (7 / 10) (Some max_tokens) None default_stream w")
  have w1: "sent w1 = sent w + 1"
    using chat_completion_sent [of P self test_model "[[(''role'', ''user''), (''content'', ''Explain machine learning in detail.'')]]"
            "7 / 10" "Some max_tokens" None default_stream w] call by simp
  show ?case
  proof (cases r)
    case (Inl e)
    with call chat_completion_raises [of P self test_model "[[(''role'', ''user''), (''content'', ''Explain machine learning in detail.'')]]"
            "7 / 10" "Some max_tokens" None default_stream w e]
    obtain msg where e: "e = APIRequestError msg" by auto
    with Cons.prems call Inl have
      "max_tokens_loop P self test_model rest acc w1 = (Inr rs, w')" by simp
    from Cons.IH [OF this] w1 show ?thesis by auto
  next
    case (Inr result)
    obtain ts w2 where n: "now P w1 = (ts, w2)" by (cases "now P w1")
    then have w2: "sent w2 = sent w1" by (auto simp: now_def)
    from Cons.prems call Inr n obtain response_text where
      rt: "response_text_of result = Inr response_text"
      and tail: "max_tokens_loop P self test_model rest
                   (acc @ [[(''experiment'', JStr ''parameter_exploration''),
                        (''parameter'', JStr ''max_tokens''),
                        (''value'', JInt max_tokens),
                        (''model'', JStr test_model),
                        (''response'', response_text),
                        (''metrics'', JObj (r_metrics result)),
                        (''timestamp'', JStr ts)]]) w2 = (Inr rs, w')"
      by (auto split: sum.splits)
    from Cons.IH [OF tail] w1 w2 show ?thesis
      by (auto simp: has_error_def)
  qed
qed

lemma experiment_2_records:
  assumes "experiment_2_parameter_exploration P OPENAI_MODELS self results w = (Inr rs, results', w')"
  shows "sent w' = sent w + 7 \<and> length rs \<le> 7 \<and> (\<forall>r\<in>set rs. \<not> has_error r)
         \<and> results' = results @ rs"
proof -
  define test_model where
    "test_model = (case OPENAI_MODELS of [] \<Rightarrow> ''openai/gpt-4o-mini'' | m # ms \<Rightarrow> m)"
  from assms obtain rs1 w1 where
    l1: "temperature_loop P self test_model
           ''Write a creative short story about a robot learning to paint.''
           [0, 1 / 2, 1, 3 / 2] [] w = (Inr rs1, w1)"
    and l2: "max_tokens_loop P self test_model [50, 150, 300] rs1 w1 = (Inr rs, w')"
    and r: "results' = results @ rs"
    unfolding experiment_2_parameter_exploration_def test_model_def [symmetric] Let_def
    by (auto split: prod.splits sum.splits)
  from temperature_loop_inv [OF l1] have
    a: "sent w1 = sent w + 4" "length rs1 \<le> 4" "\<forall>r\<in>set rs1. \<not> has_error r" by auto
  from max_tokens_loop_inv [OF l2] have
    b: "sent w' = sent w1 + 3" "length rs \<le> length rs1 + 3"
       "\<forall>r\<in>set rs. r \<in> set rs1 \<or> \<not> has_error r" by auto
  from a b r show ?thesis by auto
qed

text \<open>
  C3 (the code departs from the claim): experiment 2 attempts seven calls. When the first
  meets an HTTP 500 and the other six succeed, all seven requests are sent, but the result
  holds six records and none of them carries an error: the handlers of lines 136 and 168
  record nothing, where those of experiments 1, 3 and 4 append a failure record.
\<close>

theorem C3_failure_unrecorded:
  "(case experiment_2_parameter_exploration
           (simulated (Raises (HTTPStatusError 500 None ''Internal Server Error'') # replicate 6 hello))
           [''openai/gpt-4o-mini''] test_client [] start of
      (r, results, w') \<Rightarrow>
        (case r of
           Inl e \<Rightarrow> None
         | Inr rs \<Rightarrow> Some (length rs, length results, sent w', filter has_error rs)))
   = Some (6, 6, 7, [])"
  by code_simp

section \<open>The tally\<close>

lemma has_error_map_of: "(map_of r ''error'' = None) = (\<not> has_error r)"
  by (simp add: has_error_def map_of_eq_None_iff)

lemma spec_tally_Nil: "spec_tally [] name = \<lparr> total = 0, success = 0, failed = 0 \<rparr>"
  by (simp add: spec_tally_def)

lemma spec_tally_Cons:
  "spec_tally (r # rs) name =
     (if experiment_of r = name
      then add_counts \<lparr> total = 1, success = (if has_error r then 0 else 1),
                         failed = (if has_error r then 1 else 0) \<rparr> (spec_tally rs name)
      else spec_tally rs name)"
  by (simp add: spec_tally_def add_counts_def)

lemma count_results_acc:
  "map_of (count_results rs acc) name =
     (case map_of acc name of
        None \<Rightarrow> if name \<in> experiment_of ` set rs then Some (spec_tally rs name) else None
      | Some c \<Rightarrow> Some (add_counts c (spec_tally rs name)))"
proof (induction rs arbitrary: acc)
  case Nil
  then show ?case
    by (simp add: spec_tally_Nil add_counts_def split: option.splits)
next
  case (Cons r rs)
  have e: "dict_get r ''experiment'' (JStr ''unknown'') = experiment_of r"
    by (simp add: dict_get_def experiment_of_def)
  show ?case
    by (simp add: Cons.IH Let_def e map_of_dict_set has_error_map_of spec_tally_Cons
          add_counts_def split: option.splits)
qed

text \<open>
  C8: the summary maps every experiment name that occurs to its tally (all records of the
  name, those without an \<open>error\<close> field, those with one) and no other name to anything;
  three successes and two failures of experiment \<open>x\<close> give \<open>{x: {total: 5, success: 3,
  failed: 2}}\<close>.
\<close>

theorem C8_summary:
  "map_of (print_summary results) name =
     (if name \<in> experiment_of ` set results then Some (spec_tally results name) else None)
   \<and> print_summary
       [[(''experiment'', JStr ''x''), (''response'', JStr ''a'')],
        [(''experiment'', JStr ''x''), (''error'', JStr ''HTTP 500: Unknown error'')],
        [(''experiment'', JStr ''x''), (''response'', JStr ''b'')],
        [(''experiment'', JStr ''x''), (''error'', JStr ''Request failed: timed out'')],
        [(''experiment'', JStr ''x''), (''response'', JStr ''c'')]]
     = [(JStr ''x'', \<lparr> total = 5, success = 3, failed = 2 \<rparr>)]"
proof (rule conjI)
  show "map_of (print_summary results) name =
     (if name \<in> experiment_of ` set results then Some (spec_tally results name) else None)"
    by (simp add: print_summary_def count_results_acc)
  show "print_summary
       [[(''experiment'', JStr ''x''), (''response'', JStr ''a'')],
        [(''experiment'', JStr ''x''), (''error'', JStr ''HTTP 500: Unknown error'')],
        [(''experiment'', JStr ''x''), (''response'', JStr ''b'')],
        [(''experiment'', JStr ''x''), (''error'', JStr ''Request failed: timed out'')],
        [(''experiment'', JStr ''x''), (''response'', JStr ''c'')]]
     = [(JStr ''x'', \<lparr> total = 5, success = 3, failed = 2 \<rparr>)]"
    by code_simp
qed

end
